theory Spec2Isabelle
  imports Complex_Main
begin

section \<open>Data model (types/appState.ts and the types it imports)\<close>

text \<open>
  JavaScript truthiness of a value of type \<open>string | null | undefined\<close>:
  \<open>None\<close> stands for \<open>null\<close>/\<open>undefined\<close>, and the empty string is falsy as well.
  \<open>a || b\<close> on such values is \<open>or_else\<close>.
\<close>

definition truthy :: "string option \<Rightarrow> bool" where
  "truthy v = (case v of None \<Rightarrow> False | Some x \<Rightarrow> x \<noteq> [])"

definition or_else :: "string option \<Rightarrow> string option \<Rightarrow> string option" where
  "or_else a b = (if truthy a then a else b)"

text \<open>\<open>v || ''\<close> for \<open>v\<close> of type \<open>string | null\<close>.\<close>

definition or_empty :: "string option \<Rightarrow> string" where
  "or_empty v = (case v of None \<Rightarrow> [] | Some x \<Rightarrow> (if x \<noteq> [] then x else []))"

text \<open>
  \<open>AccountInfo\<close> comes from the identity library; the reducer stores it without looking
  inside, so the account is represented by its user name.
\<close>

type_synonym AccountInfo = string

datatype auth_status = Initializing | Authenticated | Unauthenticated | AuthError

datatype chat_status = Idle | Sending | Streaming | ChatError

datatype role = User | Assistant | Approval

record IUsageInfo =
  promptTokens :: int
  completionTokens :: int
  totalTokens :: int
  duration :: real

text \<open>
  Modelled from the spec: the declarations of \<open>IAnnotation\<close>, \<open>IMcpApprovalRequest\<close>,
  \<open>IChatItem\<close> (types/chat) and \<open>AppError\<close> (types/errors) are not part of the sources
  at hand. Their fields are the ones the reducer and the service read and write, with
  the field lists of the wire protocol table and of the error taxonomy.
\<close>

record IAnnotation =
  ann_type :: string
  ann_label :: string
  ann_url :: "string option"
  ann_fileId :: "string option"
  startIndex :: int
  endIndex :: int
  ann_quote :: "string option"

record IMcpApprovalRequest =
  request_id :: string
  toolName :: string
  serverLabel :: string
  arguments :: "string option"

text \<open>The \<open>mcpApproval\<close> object of an approval message: the request's fields and
  \<open>previousResponseId\<close>.\<close>

record McpApproval =
  approval_id :: string
  approval_toolName :: string
  approval_serverLabel :: string
  approval_arguments :: "string option"
  previousResponseId :: string

record MoreInfo =
  time :: "string option"
  usage :: "IUsageInfo option"

record IChatItem =
  item_id :: string
  role :: role
  content :: string
  attachments :: "string list option"
  annotations :: "IAnnotation list option"
  more_info :: "MoreInfo option"
  item_duration :: "real option"
  mcpApproval :: "McpApproval option"

text \<open>The arguments of one \<open>sendMessage\<close> call; an error's retry action re-runs the
  call with them.\<close>

record File =
  file_name :: string
  file_type :: string

record SendArgs =
  messageText :: string
  currentConversationId_arg :: "string option"
  files :: "File list option"
  previousResponseId_arg :: "string option"

record AppError =
  code :: string
  message :: string
  recoverable :: bool
  retry :: "SendArgs option"

record AuthState =
  auth_status :: auth_status
  user :: "AccountInfo option"
  auth_error :: "string option"

record ChatState =
  status :: chat_status
  messages :: "IChatItem list"
  currentConversationId :: "string option"
  lastResponseId :: "string option"
  error :: "AppError option"
  streamingMessageId :: "string option"

record UiState =
  chatInputEnabled :: bool

record AppState =
  auth :: AuthState
  chat :: ChatState
  ui :: UiState

text \<open>
  \<open>AppAction\<close>, the discriminated union of the intents. \<open>Unrecognised\<close> stands for a
  value whose \<open>type\<close> tag is none of the declared ones; it reaches the \<open>default\<close> branch
  of the reducer.
\<close>

datatype AppAction =
    AUTH_INITIALIZED AccountInfo
  | AUTH_TOKEN_EXPIRED
  | CHAT_SEND_MESSAGE IChatItem
  | CHAT_START_STREAM "string option" string
  | CHAT_STREAM_CHUNK string string
  | CHAT_STREAM_ANNOTATIONS string "IAnnotation list"
  | CHAT_MCP_APPROVAL_REQUEST string IMcpApprovalRequest "string option"
  | CHAT_STREAM_COMPLETE IUsageInfo "string option"
  | CHAT_CANCEL_STREAM
  | CHAT_ERROR AppError
  | CHAT_CLEAR_ERROR
  | CHAT_CLEAR
  | CHAT_ADD_ASSISTANT_MESSAGE string
  | Unrecognised string

definition initialAppState :: AppState where
  "initialAppState =
     \<lparr> auth = \<lparr> auth_status = Initializing, user = None, auth_error = None \<rparr>,
       chat = \<lparr> status = Idle, messages = [], currentConversationId = None,
                lastResponseId = None, error = None, streamingMessageId = None \<rparr>,
       ui = \<lparr> chatInputEnabled = True \<rparr> \<rparr>"

section \<open>The reducer (reducers/appReducer.ts)\<close>

text \<open>\<open>Array.prototype.findIndex\<close>: the first index whose element satisfies the
  predicate; \<open>None\<close> is the source's \<open>-1\<close>.\<close>

fun findIndex :: "('a \<Rightarrow> bool) \<Rightarrow> 'a list \<Rightarrow> nat option" where
  "findIndex p [] = None"
| "findIndex p (x # xs) =
     (if p x then Some 0
      else (case findIndex p xs of None \<Rightarrow> None | Some i \<Rightarrow> Some (Suc i)))"

text \<open>
  What a branch of the reducer returns: \<open>return state\<close> hands back the very object it
  was given (\<open>SameRef\<close>), an object literal \<open>return {...state, ...}\<close> allocates a new
  object (\<open>NewObj\<close>), also when its fields equal those of the input.
\<close>

datatype 'a returned = SameRef | NewObj 'a

definition approvalMessage :: "string \<Rightarrow> IMcpApprovalRequest \<Rightarrow> string option \<Rightarrow> IChatItem" where
  "approvalMessage messageId approvalRequest prevId =
     \<lparr> item_id = ''approval-'' @ messageId,
       role = Approval,
       content = [],
       attachments = None,
       annotations = None,
       more_info = None,
       item_duration = None,
       mcpApproval = Some
         \<lparr> approval_id = request_id approvalRequest,
           approval_toolName = toolName approvalRequest,
           approval_serverLabel = serverLabel approvalRequest,
           approval_arguments = arguments approvalRequest,
           previousResponseId = or_empty prevId \<rparr> \<rparr>"

definition completeMessage :: "string option \<Rightarrow> IUsageInfo \<Rightarrow> IChatItem \<Rightarrow> IChatItem" where
  "completeMessage streamingId u msg =
     (if Some (item_id msg) = streamingId
      then msg\<lparr> more_info :=
                  Some (case more_info msg of
                          None \<Rightarrow> \<lparr> time = None, usage = Some u \<rparr>
                        | Some m \<Rightarrow> m\<lparr> usage := Some u \<rparr>),
                item_duration := Some (duration u) \<rparr>
      else msg)"

text \<open>
  The reducer. Its first argument is the reading of the clock,
  \<open>new Date().toISOString()\<close>, which \<open>CHAT_ADD_ASSISTANT_MESSAGE\<close> stores in the
  placeholder message.
\<close>

fun appReducer_ref :: "string \<Rightarrow> AppState \<Rightarrow> AppAction \<Rightarrow> AppState returned" where
  "appReducer_ref now state (AUTH_INITIALIZED u) =
     NewObj (state\<lparr> auth := \<lparr> auth_status = Authenticated, user = Some u, auth_error = None \<rparr> \<rparr>)"
| "appReducer_ref now state AUTH_TOKEN_EXPIRED =
     NewObj (state\<lparr> auth := (auth state)\<lparr> auth_status := Unauthenticated \<rparr> \<rparr>)"
| "appReducer_ref now state (CHAT_SEND_MESSAGE msg) =
     NewObj (state\<lparr> chat := (chat state)\<lparr> status := Sending,
                                          messages := messages (chat state) @ [msg] \<rparr> \<rparr>)"
| "appReducer_ref now state (CHAT_ADD_ASSISTANT_MESSAGE messageId) =
     NewObj (state\<lparr> chat := (chat state)\<lparr> messages := messages (chat state) @
        [\<lparr> item_id = messageId, role = Assistant, content = [], attachments = None,
           annotations = None, more_info = Some \<lparr> time = Some now, usage = None \<rparr>,
           item_duration = None, mcpApproval = None \<rparr>] \<rparr> \<rparr>)"
| "appReducer_ref now state (CHAT_START_STREAM conversationId messageId) =
     NewObj (state\<lparr> chat := (chat state)\<lparr> status := Streaming,
                        currentConversationId :=
                          or_else conversationId (currentConversationId (chat state)),
                        streamingMessageId := Some messageId,
                        error := None \<rparr>,
                    ui := (ui state)\<lparr> chatInputEnabled := False \<rparr> \<rparr>)"
| "appReducer_ref now state (CHAT_STREAM_CHUNK messageId c) =
     (case findIndex (\<lambda>msg. item_id msg = messageId) (messages (chat state)) of
        None \<Rightarrow> SameRef
      | Some messageIndex \<Rightarrow>
          (let updatedMessages = messages (chat state);
               updatedMessages' = updatedMessages[messageIndex :=
                 (updatedMessages ! messageIndex)
                   \<lparr> content := content (updatedMessages ! messageIndex) @ c \<rparr>]
           in NewObj (state\<lparr> chat := (chat state)\<lparr> messages := updatedMessages' \<rparr> \<rparr>)))"
| "appReducer_ref now state (CHAT_STREAM_ANNOTATIONS messageId anns) =
     (case findIndex (\<lambda>msg. item_id msg = messageId) (messages (chat state)) of
        None \<Rightarrow> SameRef
      | Some messageIndex \<Rightarrow>
          (let updatedMessages = messages (chat state);
               existingAnnotations =
                 (case annotations (updatedMessages ! messageIndex) of
                    None \<Rightarrow> [] | Some as \<Rightarrow> as);
               updatedMessages' = updatedMessages[messageIndex :=
                 (updatedMessages ! messageIndex)
                   \<lparr> annotations := Some (existingAnnotations @ anns) \<rparr>]
           in NewObj (state\<lparr> chat := (chat state)\<lparr> messages := updatedMessages' \<rparr> \<rparr>)))"
| "appReducer_ref now state (CHAT_MCP_APPROVAL_REQUEST messageId approvalRequest prevId) =
     NewObj (state\<lparr> chat := (chat state)\<lparr>
                        messages := messages (chat state) @
                          [approvalMessage messageId approvalRequest prevId],
                        status := Idle \<rparr>,
                    ui := (ui state)\<lparr> chatInputEnabled := False \<rparr> \<rparr>)"
| "appReducer_ref now state (CHAT_STREAM_COMPLETE u responseId) =
     (let updatedMessages =
            map (completeMessage (streamingMessageId (chat state)) u) (messages (chat state))
      in NewObj (state\<lparr> chat := (chat state)\<lparr>
                           status := Idle,
                           streamingMessageId := None,
                           messages := updatedMessages,
                           lastResponseId := or_else responseId (lastResponseId (chat state)) \<rparr>,
                       ui := (ui state)\<lparr> chatInputEnabled := True \<rparr> \<rparr>))"
| "appReducer_ref now state CHAT_CANCEL_STREAM =
     NewObj (state\<lparr> chat := (chat state)\<lparr> status := Idle, streamingMessageId := None \<rparr>,
                    ui := (ui state)\<lparr> chatInputEnabled := True \<rparr> \<rparr>)"
| "appReducer_ref now state (CHAT_ERROR e) =
     NewObj (state\<lparr> chat := (chat state)\<lparr> status := ChatError,
                                          error := Some e,
                                          streamingMessageId := None \<rparr>,
                    ui := (ui state)\<lparr> chatInputEnabled := recoverable e \<rparr> \<rparr>)"
| "appReducer_ref now state CHAT_CLEAR_ERROR =
     NewObj (state\<lparr> chat := (chat state)\<lparr> error := None, status := Idle \<rparr>,
                    ui := (ui state)\<lparr> chatInputEnabled := True \<rparr> \<rparr>)"
| "appReducer_ref now state CHAT_CLEAR =
     NewObj (state\<lparr> chat := \<lparr> status = Idle, messages = [], currentConversationId = None,
                              lastResponseId = None, error = None,
                              streamingMessageId = None \<rparr>,
                    ui := (ui state)\<lparr> chatInputEnabled := True \<rparr> \<rparr>)"
| "appReducer_ref now state (Unrecognised t) = SameRef"

text \<open>The state the reducer returns, as a value.\<close>

definition appReducer :: "string \<Rightarrow> AppState \<Rightarrow> AppAction \<Rightarrow> AppState" where
  "appReducer now state action =
     (case appReducer_ref now state action of SameRef \<Rightarrow> state | NewObj s \<Rightarrow> s)"

text \<open>Dispatching a run's intents in order; every call of the reducer reads the clock.\<close>

definition dispatchAll :: "string \<Rightarrow> AppState \<Rightarrow> AppAction list \<Rightarrow> AppState" where
  "dispatchAll now state actions = foldl (appReducer now) state actions"

section \<open>The chat service (class ChatService)\<close>

subsection \<open>Thrown values and the helpers of utils/errorHandler\<close>

text \<open>
  What a \<open>catch\<close> block can receive, split the way the service's tests on it split it:
  a \<open>DOMException\<close> with its name and message (an instance of \<open>Error\<close> that has a
  \<open>code\<close> property), a value made by \<open>createAppError\<close>, an \<open>Error\<close> with its message
  and without a \<open>code\<close> property, and any other thrown value with its \<open>String(...)\<close>.
\<close>

datatype exn =
    DOMException string string
  | AppErrorExn AppError
  | ErrorExn string
  | ThrownValue string

text \<open>
  Modelled from the spec: utils/errorHandler and utils/fileAttachments are not part of
  the sources at hand, so their functions are parameters of the service.
  \<open>castAppError\<close> is the unchecked cast of a thrown value that is not a made
  \<open>AppError\<close> to the type \<open>AppError\<close>; \<open>appErrorIsCodedError\<close> says whether a made
  \<open>AppError\<close> passes \<open>error instanceof Error && 'code' in error\<close>, and \<open>appErrorText\<close>
  is \<open>error instanceof Error ? error.message : String(error)\<close> on one.
\<close>

record FileResult =
  dataUri :: string
  name :: string
  mimeType :: string

record Env =
  createAppError :: "exn \<Rightarrow> string option \<Rightarrow> SendArgs option \<Rightarrow> AppError"
  isAppError :: "exn \<Rightarrow> bool"
  getErrorCodeFromMessage :: "exn \<Rightarrow> string option"
  isTokenExpiredError :: "exn \<Rightarrow> bool"
  castAppError :: "exn \<Rightarrow> AppError"
  appErrorIsCodedError :: bool
  appErrorText :: "AppError \<Rightarrow> string"
  createAttachmentMetadata :: "FileResult list \<Rightarrow> string list option"

fun isAbortError :: "exn \<Rightarrow> bool" where
  "isAbortError (DOMException n m) = (n = ''AbortError'')"
| "isAbortError e = False"

fun isCodedError :: "Env \<Rightarrow> exn \<Rightarrow> bool" where
  "isCodedError env (DOMException n m) = True"
| "isCodedError env (AppErrorExn a) = appErrorIsCodedError env"
| "isCodedError env (ErrorExn m) = False"
| "isCodedError env (ThrownValue v) = False"

fun asAppError :: "Env \<Rightarrow> exn \<Rightarrow> AppError" where
  "asAppError env (AppErrorExn a) = a"
| "asAppError env e = castAppError env e"

fun errorText :: "Env \<Rightarrow> exn \<Rightarrow> string" where
  "errorText env (DOMException n m) = m"
| "errorText env (AppErrorExn a) = appErrorText env a"
| "errorText env (ErrorExn m) = m"
| "errorText env (ThrownValue v) = v"

text \<open>A value of type \<open>string | null\<close> inside a template literal.\<close>

definition templ :: "string option \<Rightarrow> string" where
  "templ v = (case v of None \<Rightarrow> ''null'' | Some x \<Rightarrow> x)"

datatype Outcome = Returned | Threw exn

subsection \<open>processStream\<close>

text \<open>
  A decoded event \<open>{type, data}\<close>. The payload of each recognised type has the type of
  the intent field it is copied into. \<open>EvDataError\<close> is an event of any type whose
  \<open>data.error\<close> is truthy, with the text \<open>data.error.message || data.error\<close>;
  \<open>EvOther\<close> is an event whose type the \<open>switch\<close> does not list.
\<close>

datatype SseEvent =
    EvDataError string
  | EvConversationId "string option"
  | EvChunk string
  | EvAnnotations "IAnnotation list"
  | EvMcpApprovalRequest "IMcpApprovalRequest option"
  | EvUsage IUsageInfo "string option"
  | EvDone
  | EvError string
  | EvOther string

text \<open>The local variables of the loop that outlive one event.\<close>

record LoopState =
  newConversationId :: "string option"
  lastChunkContent :: "string option"

datatype EventResult = Next LoopState | ReturnDone | Throw exn

text \<open>The body of \<open>for (const line of lines)\<close> for one parsed event: the intents it
  dispatches, and how it leaves.\<close>

fun processEvent :: "Env \<Rightarrow> string \<Rightarrow> LoopState \<Rightarrow> SseEvent \<Rightarrow> AppAction list \<times> EventResult" where
  "processEvent env messageId st (EvDataError txt) =
     (let err = createAppError env (ErrorExn txt) (Some ''STREAM'') None
      in ([CHAT_ERROR err], Throw (AppErrorExn err)))"
| "processEvent env messageId st (EvConversationId c) =
     (if \<not> truthy (newConversationId st)
      then ([CHAT_START_STREAM c messageId], Next (st\<lparr> newConversationId := c \<rparr>))
      else ([], Next st))"
| "processEvent env messageId st (EvChunk c) =
     (if Some c \<noteq> lastChunkContent st
      then ([CHAT_STREAM_CHUNK messageId c], Next (st\<lparr> lastChunkContent := Some c \<rparr>))
      else ([], Next st))"
| "processEvent env messageId st (EvAnnotations anns) =
     (if anns \<noteq> []
      then ([CHAT_STREAM_ANNOTATIONS messageId anns], Next st)
      else ([], Next st))"
| "processEvent env messageId st (EvMcpApprovalRequest r) =
     (case r of
        Some approvalRequest \<Rightarrow>
          ([CHAT_MCP_APPROVAL_REQUEST messageId approvalRequest (newConversationId st)], Next st)
      | None \<Rightarrow> ([], Next st))"
| "processEvent env messageId st (EvUsage u responseId) =
     ([CHAT_STREAM_COMPLETE u responseId], Next st)"
| "processEvent env messageId st EvDone = ([], ReturnDone)"
| "processEvent env messageId st (EvError m) =
     (let err = createAppError env
                  (ErrorExn (''Stream error for message '' @ messageId @ '': '' @ m))
                  (Some ''STREAM'') None
      in ([CHAT_ERROR err], Throw (AppErrorExn err)))"
| "processEvent env messageId st (EvOther t) = ([], Next st)"

text \<open>The \<open>for\<close> loop over the lines of one read; \<open>None\<close> is a line that
  \<open>parseSseLine\<close> does not turn into an event.\<close>

fun processLines ::
  "Env \<Rightarrow> string \<Rightarrow> LoopState \<Rightarrow> SseEvent option list \<Rightarrow> AppAction list \<times> EventResult" where
  "processLines env messageId st [] = ([], Next st)"
| "processLines env messageId st (None # ls) = processLines env messageId st ls"
| "processLines env messageId st (Some ev # ls) =
     (case processEvent env messageId st ev of
        (tr, Next st') \<Rightarrow>
          (case processLines env messageId st' ls of (tr', r) \<Rightarrow> (tr @ tr', r))
      | (tr, ReturnDone) \<Rightarrow> (tr, ReturnDone)
      | (tr, Throw e) \<Rightarrow> (tr, Throw e))"

text \<open>
  One \<open>await reader.read()\<close> that does not report \<open>done\<close>: either the parsed lines that
  the bytes read so far complete, or the exception the read rejects with. The boolean
  is \<open>this.streamCancelled\<close> as the loop finds it when it resumes: \<open>cancelStream\<close> or a
  new \<open>sendMessage\<close> may have run while the loop was suspended. The stream is the list
  of these reads; after the last one the reader reports \<open>done\<close>.
\<close>

datatype ReadResult = Data "SseEvent option list" | ReadThrows exn

type_synonym ReadStep = "bool \<times> ReadResult"

text \<open>How the \<open>try\<close> block ends: normally, or with an exception and the value of
  \<open>this.streamCancelled\<close> that the \<open>catch\<close> block then reads.\<close>

datatype BodyOutcome = Completed | Raised exn bool

fun readLoop ::
  "Env \<Rightarrow> string \<Rightarrow> LoopState \<Rightarrow> bool \<Rightarrow> ReadStep list \<Rightarrow> AppAction list \<times> BodyOutcome" where
  "readLoop env messageId st cancelled [] = ([], Completed)"
| "readLoop env messageId st cancelled ((cancelled', r) # rest) =
     (if cancelled then ([], Completed)
      else (case r of
              ReadThrows e \<Rightarrow> ([], Raised e cancelled')
            | Data ls \<Rightarrow>
                (case processLines env messageId st ls of
                   (tr, Next st') \<Rightarrow>
                     (case readLoop env messageId st' cancelled' rest of
                        (tr', out) \<Rightarrow> (tr @ tr', out))
                 | (tr, ReturnDone) \<Rightarrow> (tr, Completed)
                 | (tr, Throw e) \<Rightarrow> (tr, Raised e cancelled'))))"

text \<open>The \<open>catch\<close> block of \<open>processStream\<close>.\<close>

definition streamCatch ::
  "Env \<Rightarrow> string \<Rightarrow> string option \<Rightarrow> exn \<Rightarrow> bool \<Rightarrow> AppAction list \<times> Outcome" where
  "streamCatch env messageId conv e cancelled =
     (if isAbortError e \<and> cancelled then ([], Returned)
      else
        (let appError =
               (if isCodedError env e then asAppError env e
                else createAppError env
                       (ErrorExn (''Stream processing failed: '' @ errorText env e @
                                  '' (Conversation: '' @ templ conv @
                                  '', Message: '' @ messageId @ '')''))
                       (Some ''STREAM'') None)
         in ([CHAT_ERROR appError], Threw e)))"

text \<open>
  \<open>processStream\<close>. The response body is \<open>None\<close> when \<open>response.body?.getReader()\<close>
  gives no reader; \<open>cancelled\<close> is \<open>this.streamCancelled\<close> when the loop starts.
\<close>

definition processStream ::
  "Env \<Rightarrow> bool \<Rightarrow> ReadStep list option \<Rightarrow> string \<Rightarrow> string option \<Rightarrow> AppAction list \<times> Outcome" where
  "processStream env cancelled body messageId conv =
     (case body of
        None \<Rightarrow>
          (let err = createAppError env
                       (ErrorExn (''Response body is not readable for message '' @ messageId))
                       (Some ''STREAM'') None
           in ([CHAT_ERROR err], Threw (AppErrorExn err)))
      | Some reads \<Rightarrow>
          (case readLoop env messageId
                  \<lparr> newConversationId = conv, lastChunkContent = None \<rparr> cancelled reads of
             (tr, Completed) \<Rightarrow> (tr, Returned)
           | (tr, Raised e c) \<Rightarrow>
               (case streamCatch env messageId conv e c of (tr', out) \<Rightarrow> (tr @ tr', out))))"

text \<open>\<open>this.streamCancelled\<close> at the moment \<open>processStream\<close> throws.\<close>

definition streamFlag :: "Env \<Rightarrow> bool \<Rightarrow> ReadStep list option \<Rightarrow> string \<Rightarrow> string option \<Rightarrow> bool" where
  "streamFlag env cancelled body messageId conv =
     (case body of
        None \<Rightarrow> cancelled
      | Some reads \<Rightarrow>
          (case readLoop env messageId
                  \<lparr> newConversationId = conv, lastChunkContent = None \<rparr> cancelled reads of
             (tr, Completed) \<Rightarrow> cancelled
           | (tr, Raised e c) \<Rightarrow> c))"

subsection \<open>sendMessage\<close>

text \<open>The fields of the service that its methods assign; \<open>currentStreamAbort\<close> is
  \<open>None\<close> when undefined, and otherwise tells whether the controller was aborted. The
  flag is set from outside only by \<open>cancelStream\<close> or a new \<open>sendMessage\<close>, which abort
  the controller in the same step, so a flag found set goes with an aborted controller.\<close>

record Service =
  currentStreamAbort :: "bool option"
  streamCancelled :: bool

record FileDataUri =
  fd_dataUri :: string
  fileName :: string
  fd_mimeType :: string

record Payload =
  payload_content :: string
  imageDataUris :: "string list"
  fileDataUris :: "FileDataUri list"
  payload_attachments :: "string list option"

record RequestBody =
  body_message :: string
  body_conversationId :: "string option"
  body_imageDataUris :: "string list option"
  body_fileDataUris :: "FileDataUri list option"
  body_previousResponseId :: "string option"

text \<open>
  What the collaborators answer during one call of \<open>sendMessage\<close>: \<open>getAccessToken()\<close>
  (a token, \<open>null\<close>, or a rejection), \<open>convertFilesToDataUris(files)\<close>, the two
  readings of \<open>Date.now()\<close> and the time stamp of the user message, the outcome of
  \<open>retryWithBackoff\<close> around \<open>initiateStream\<close> for a token and a request body (a
  rejection, or a response with its body), and \<open>this.streamCancelled\<close> as found when
  that call resumes.
\<close>

record World =
  tokenResult :: "exn + string option"
  convertResult :: "exn + FileResult list"
  dateNow1 :: nat
  isoTime :: string
  dateNow2 :: nat
  fetchResult :: "string \<Rightarrow> RequestBody \<Rightarrow> exn + ReadStep list option"
  cancelledAfterFetch :: bool

text \<open>\<open>Number.prototype.toString\<close> on a natural number.\<close>

fun numToString :: "nat \<Rightarrow> string" where
  "numToString n =
     (if n < 10 then [''0123456789'' ! n]
      else numToString (n div 10) @ [''0123456789'' ! (n mod 10)])"

declare numToString.simps [simp del]

definition startsWith :: "string \<Rightarrow> string \<Rightarrow> bool" where
  "startsWith s p = (take (length p) s = p)"

definition ensureAuthToken :: "Env \<Rightarrow> exn + string option \<Rightarrow> exn + string" where
  "ensureAuthToken env r =
     (case r of
        Inl e \<Rightarrow> Inl e
      | Inr token \<Rightarrow>
          (if \<not> truthy token
           then Inl (AppErrorExn (createAppError env
                       (ErrorExn ''Failed to acquire access token'') (Some ''AUTH'') None))
           else Inr (case token of Some t \<Rightarrow> t | None \<Rightarrow> [])))"

definition prepareMessagePayload ::
  "Env \<Rightarrow> string \<Rightarrow> File list option \<Rightarrow> exn + FileResult list \<Rightarrow>
   AppAction list \<times> (exn + Payload)" where
  "prepareMessagePayload env txt fs conversion =
     (if (case fs of None \<Rightarrow> False | Some l \<Rightarrow> length l > 0)
      then
        (case conversion of
           Inr results \<Rightarrow>
             (let imageResults = filter (\<lambda>r. startsWith (mimeType r) ''image/'') results;
                  fileResults = filter (\<lambda>r. \<not> startsWith (mimeType r) ''image/'') results
              in ([], Inr \<lparr> payload_content = txt,
                           imageDataUris = map dataUri imageResults,
                           fileDataUris =
                             map (\<lambda>r. \<lparr> fd_dataUri = dataUri r, fileName = name r,
                                         fd_mimeType = mimeType r \<rparr>) fileResults,
                           payload_attachments = createAttachmentMetadata env results \<rparr>))
         | Inl e \<Rightarrow>
             (let appError = createAppError env e None None
              in ([CHAT_ERROR appError], Inl (AppErrorExn appError))))
      else ([], Inr \<lparr> payload_content = txt, imageDataUris = [], fileDataUris = [],
                      payload_attachments = None \<rparr>))"

definition constructRequestBody ::
  "string \<Rightarrow> string option \<Rightarrow> string list \<Rightarrow> FileDataUri list \<Rightarrow> string option \<Rightarrow> RequestBody" where
  "constructRequestBody msg conversationId images fileUris prevId =
     \<lparr> body_message = msg,
       body_conversationId = conversationId,
       body_imageDataUris = (if length images > 0 then Some images else None),
       body_fileDataUris = (if length fileUris > 0 then Some fileUris else None),
       body_previousResponseId = or_else prevId None \<rparr>"

text \<open>The \<open>try\<close> block of \<open>sendMessage\<close>: the service as it leaves it, the intents it
  dispatches, and whether it completes or throws.\<close>

definition sendTry :: "Env \<Rightarrow> Service \<Rightarrow> SendArgs \<Rightarrow> World \<Rightarrow> Service \<times> AppAction list \<times> Outcome" where
  "sendTry env svc args w =
     (case ensureAuthToken env (tokenResult w) of
        Inl e \<Rightarrow> (svc, [], Threw e)
      | Inr token \<Rightarrow>
          (case prepareMessagePayload env (messageText args) (files args) (convertResult w) of
             (tr1, Inl e) \<Rightarrow> (svc, tr1, Threw e)
           | (tr1, Inr payload) \<Rightarrow>
               (let conv = currentConversationId_arg args;
                    userMessage =
                      \<lparr> item_id = numToString (dateNow1 w), role = User,
                        content = payload_content payload,
                        attachments = payload_attachments payload,
                        annotations = None,
                        more_info = Some \<lparr> time = Some (isoTime w), usage = None \<rparr>,
                        item_duration = None, mcpApproval = None \<rparr>;
                    assistantMessageId = numToString (dateNow2 w + 1);
                    tr2 = [CHAT_SEND_MESSAGE userMessage,
                           CHAT_ADD_ASSISTANT_MESSAGE assistantMessageId,
                           CHAT_START_STREAM (or_else conv None) assistantMessageId];
                    svc1 = svc\<lparr> currentStreamAbort := Some False, streamCancelled := False \<rparr>;
                    requestBody = constructRequestBody (messageText args) conv
                                    (imageDataUris payload) (fileDataUris payload)
                                    (previousResponseId_arg args);
                    svc2 = svc1\<lparr> streamCancelled := cancelledAfterFetch w,
                                 currentStreamAbort := Some (cancelledAfterFetch w) \<rparr>
                in (case fetchResult w token requestBody of
                      Inl e \<Rightarrow> (svc2, tr1 @ tr2, Threw e)
                    | Inr body \<Rightarrow>
                        (case processStream env (cancelledAfterFetch w) body
                                assistantMessageId conv of
                           (tr3, Returned) \<Rightarrow>
                             (svc2\<lparr> currentStreamAbort := None, streamCancelled := False \<rparr>,
                              tr1 @ tr2 @ tr3, Returned)
                         | (tr3, Threw e) \<Rightarrow>
                             (svc2\<lparr> streamCancelled :=
                                      streamFlag env (cancelledAfterFetch w) body
                                        assistantMessageId conv,
                                    currentStreamAbort :=
                                      Some (streamFlag env (cancelledAfterFetch w) body
                                              assistantMessageId conv) \<rparr>,
                              tr1 @ tr2 @ tr3, Threw e))))))"

text \<open>The \<open>catch\<close> block of \<open>sendMessage\<close>.\<close>

definition sendCatch :: "Env \<Rightarrow> SendArgs \<Rightarrow> exn \<Rightarrow> AppAction list \<times> Outcome" where
  "sendCatch env args e =
     (if isAbortError e then ([], Returned)
      else
        (let appError =
               (if isAppError env e then asAppError env e
                else createAppError env e (getErrorCodeFromMessage env e) (Some args))
         in ((if isTokenExpiredError env e then [AUTH_TOKEN_EXPIRED] else []) @
             [CHAT_ERROR appError], Threw e)))"

definition sendMessage :: "Env \<Rightarrow> Service \<Rightarrow> SendArgs \<Rightarrow> World \<Rightarrow> Service \<times> AppAction list \<times> Outcome" where
  "sendMessage env svc args w =
     (let (svc0, tr0) =
            (case currentStreamAbort svc of
               Some aborted \<Rightarrow>
                 (svc\<lparr> streamCancelled := True, currentStreamAbort := Some True \<rparr>,
                  [CHAT_CANCEL_STREAM])
             | None \<Rightarrow> (svc, []))
      in (case sendTry env svc0 args w of
            (svc', tr, Returned) \<Rightarrow> (svc', tr0 @ tr, Returned)
          | (svc', tr, Threw e) \<Rightarrow>
              (case sendCatch env args e of (tr', out) \<Rightarrow> (svc', tr0 @ tr @ tr', out))))"

definition cancelStream :: "Service \<Rightarrow> Service \<times> AppAction list" where
  "cancelStream svc =
     (case currentStreamAbort svc of
        Some aborted \<Rightarrow>
          (svc\<lparr> streamCancelled := True, currentStreamAbort := Some True \<rparr>,
           [CHAT_CANCEL_STREAM])
      | None \<Rightarrow> (svc, []))"

section \<open>Auxiliary definitions\<close>

text \<open>The chunk payloads the loop dispatches, given the last payload it accepted, and
  the value of \<open>lastChunkContent\<close> after a run of chunk events.\<close>

fun accepted :: "string option \<Rightarrow> string list \<Rightarrow> string list" where
  "accepted prev [] = []"
| "accepted prev (c # cs) =
     (if Some c \<noteq> prev then c # accepted (Some c) cs else accepted prev cs)"

definition lastAfter :: "string option \<Rightarrow> string list \<Rightarrow> string option" where
  "lastAfter prev cs = (if cs = [] then prev else Some (last cs))"

text \<open>
  The events the loop handles in a run. \<open>parsedEvents\<close> are the events of the lines of
  one read; an event \<open>stops\<close> the loop when its branch returns or throws; \<open>reached\<close>
  collects the events handled before the loop ends, which it does at a flag found set, at
  a read that throws, at a stopping event, or at the end of the stream.
  \<open>chunkPayloads\<close> are the payloads of the chunk events among them, \<open>chunkContents\<close> the
  contents of the chunk intents of a run, and \<open>streamIntent\<close> holds for the intents that
  \<open>processStream\<close> dispatches for a message id.
\<close>

fun parsedEvents :: "SseEvent option list \<Rightarrow> SseEvent list" where
  "parsedEvents [] = []"
| "parsedEvents (None # ls) = parsedEvents ls"
| "parsedEvents (Some ev # ls) = ev # parsedEvents ls"

fun stops :: "SseEvent \<Rightarrow> bool" where
  "stops (EvDataError txt) = True"
| "stops EvDone = True"
| "stops (EvError m) = True"
| "stops ev = False"

fun reached :: "bool \<Rightarrow> ReadStep list \<Rightarrow> SseEvent list" where
  "reached cancelled [] = []"
| "reached cancelled ((cancelled', r) # rest) =
     (if cancelled then []
      else (case r of
              ReadThrows e \<Rightarrow> []
            | Data ls \<Rightarrow>
                (if list_ex stops (parsedEvents ls)
                 then takeWhile (\<lambda>ev. \<not> stops ev) (parsedEvents ls)
                 else parsedEvents ls @ reached cancelled' rest)))"

fun chunkPayloads :: "SseEvent list \<Rightarrow> string list" where
  "chunkPayloads [] = []"
| "chunkPayloads (EvChunk c # evs) = c # chunkPayloads evs"
| "chunkPayloads (ev # evs) = chunkPayloads evs"

fun chunkContents :: "AppAction list \<Rightarrow> string list" where
  "chunkContents [] = []"
| "chunkContents (CHAT_STREAM_CHUNK m c # as) = c # chunkContents as"
| "chunkContents (a # as) = chunkContents as"

fun streamIntent :: "string \<Rightarrow> AppAction \<Rightarrow> bool" where
  "streamIntent mid (CHAT_START_STREAM c m) = True"
| "streamIntent mid (CHAT_STREAM_CHUNK m c) = (m = mid)"
| "streamIntent mid (CHAT_STREAM_ANNOTATIONS m anns) = (m = mid)"
| "streamIntent mid (CHAT_MCP_APPROVAL_REQUEST m r p) = True"
| "streamIntent mid (CHAT_STREAM_COMPLETE u r) = True"
| "streamIntent mid (CHAT_ERROR e) = True"
| "streamIntent mid a = False"

text \<open>A state with another value of \<open>chat.streamingMessageId\<close>, and the test for a
  \<open>CHAT_ERROR\<close> intent.\<close>

definition withStreamingId :: "string option \<Rightarrow> AppState \<Rightarrow> AppState" where
  "withStreamingId sid state = state\<lparr> chat := (chat state)\<lparr> streamingMessageId := sid \<rparr> \<rparr>"

definition isChatError :: "AppAction \<Rightarrow> bool" where
  "isChatError a = (case a of CHAT_ERROR e \<Rightarrow> True | _ \<Rightarrow> False)"

subsection \<open>Concrete inputs\<close>

text \<open>An instance of the helpers, a conversation with a user message and the
  assistant's placeholder (while streaming, and after a cancel), and a call of
  \<open>sendMessage\<close> for which \<open>getAccessToken\<close> answers \<open>null\<close>.\<close>

definition exampleEnv :: Env where
  "exampleEnv =
     \<lparr> createAppError = (\<lambda>e c r.
         \<lparr> code = (case c of None \<Rightarrow> ''UNKNOWN'' | Some k \<Rightarrow> k),
           message = (case e of DOMException n m \<Rightarrow> m | AppErrorExn a \<Rightarrow> message a
                      | ErrorExn m \<Rightarrow> m | ThrownValue v \<Rightarrow> v),
           recoverable = True, retry = r \<rparr>),
       isAppError = (\<lambda>e. case e of AppErrorExn a \<Rightarrow> True | _ \<Rightarrow> False),
       getErrorCodeFromMessage = (\<lambda>e. None),
       isTokenExpiredError = (\<lambda>e. False),
       castAppError = (\<lambda>e.
         \<lparr> code = ''20'',
           message = (case e of DOMException n m \<Rightarrow> m | AppErrorExn a \<Rightarrow> message a
                      | ErrorExn m \<Rightarrow> m | ThrownValue v \<Rightarrow> v),
           recoverable = False, retry = None \<rparr>),
       appErrorIsCodedError = False,
       appErrorText = (\<lambda>a. ''[object Object]''),
       createAttachmentMetadata = (\<lambda>rs. Some (map name rs)) \<rparr>"

definition userItem :: IChatItem where
  "userItem = \<lparr> item_id = ''1000'', role = User, content = ''Hi'', attachments = None,
                annotations = None, more_info = None, item_duration = None,
                mcpApproval = None \<rparr>"

definition placeholderItem :: IChatItem where
  "placeholderItem = \<lparr> item_id = ''1001'', role = Assistant, content = [], attachments = None,
                       annotations = None, more_info = None, item_duration = None,
                       mcpApproval = None \<rparr>"

definition streamingState :: AppState where
  "streamingState =
     \<lparr> auth = \<lparr> auth_status = Authenticated, user = Some ''alice'', auth_error = None \<rparr>,
       chat = \<lparr> status = Streaming, messages = [userItem, placeholderItem],
                currentConversationId = Some ''conv-1'', lastResponseId = None,
                error = None, streamingMessageId = Some ''1001'' \<rparr>,
       ui = \<lparr> chatInputEnabled = False \<rparr> \<rparr>"

definition cancelledState :: AppState where
  "cancelledState =
     \<lparr> auth = \<lparr> auth_status = Authenticated, user = Some ''alice'', auth_error = None \<rparr>,
       chat = \<lparr> status = Idle, messages = [userItem, placeholderItem],
                currentConversationId = Some ''conv-1'', lastResponseId = None,
                error = None, streamingMessageId = None \<rparr>,
       ui = \<lparr> chatInputEnabled = True \<rparr> \<rparr>"

definition exampleArgs :: SendArgs where
  "exampleArgs = \<lparr> messageText = ''Hi'', currentConversationId_arg = None, files = None,
                   previousResponseId_arg = None \<rparr>"

definition nullTokenWorld :: World where
  "nullTokenWorld =
     \<lparr> tokenResult = Inr None, convertResult = Inr [], dateNow1 = 1000,
       isoTime = ''2026-01-01T00:00:00.000Z'', dateNow2 = 1000,
       fetchResult = (\<lambda>t b. Inr (Some [])), cancelledAfterFetch = False \<rparr>"

definition authError :: AppError where
  "authError = \<lparr> code = ''AUTH'', message = ''Failed to acquire access token'',
                 recoverable = True, retry = None \<rparr>"

text \<open>A helper instance that classifies the \<open>AUTH\<close> error as an expired token, and a
  stream as the backend sends it: a conversation id, chunks between other events and an
  unparsable line, usage, and \<open>done\<close> before a trailing chunk.\<close>

definition expiringEnv :: Env where
  "expiringEnv = exampleEnv\<lparr> isTokenExpiredError :=
      (\<lambda>e. case e of AppErrorExn a \<Rightarrow> code a = ''AUTH'' | _ \<Rightarrow> False) \<rparr>"

definition mixedStream :: "ReadStep list" where
  "mixedStream =
     [(False, Data [Some (EvConversationId (Some ''conv-1'')), Some (EvChunk ''Hel''), None,
                    Some (EvAnnotations []), Some (EvChunk ''Hel'')]),
      (False, Data [Some (EvOther ''ping''), Some (EvChunk ''lo''),
                    Some (EvUsage \<lparr> promptTokens = 3, completionTokens = 2, totalTokens = 5,
                                    duration = 12.5 \<rparr> (Some ''resp-1'')),
                    Some EvDone, Some (EvChunk ''!'')])]"

section \<open>Properties of the reducer\<close>

subsection \<open>findIndex\<close>

lemma findIndex_None_iff: "findIndex p xs = None \<longleftrightarrow> (\<forall>x \<in> set xs. \<not> p x)"
  by (induction xs) (auto split: option.splits)

lemma findIndex_Some:
  "findIndex p xs = Some i \<Longrightarrow> i < length xs \<and> p (xs ! i) \<and> (\<forall>j < i. \<not> p (xs ! j))"
proof (induction xs arbitrary: i)
  case Nil
  then show ?case by simp
next
  case (Cons x xs)
  show ?case
  proof (cases "p x")
    case True
    with Cons.prems show ?thesis by simp
  next
    case False
    with Cons.prems obtain k where k: "findIndex p xs = Some k" "i = Suc k"
      by (auto split: option.splits)
    from Cons.IH [OF k(1)] False k(2) show ?thesis
      by (auto simp: nth_Cons split: nat.splits)
  qed
qed

lemma findIndex_cong_ids:
  "map f xs = map f ys \<Longrightarrow> findIndex (\<lambda>m. f m = k) xs = findIndex (\<lambda>m. f m = k) ys"
proof (induction xs arbitrary: ys)
  case Nil
  then show ?case by simp
next
  case (Cons x xs)
  then obtain y ys' where ys: "ys = y # ys'" "f x = f y" "map f xs = map f ys'"
    by (cases ys) auto
  with Cons.IH [of ys'] show ?case by simp
qed

subsection \<open>Orphaned stream intents\<close>

text \<open>
  Claim C4. A \<open>CHAT_STREAM_CHUNK\<close> or \<open>CHAT_STREAM_ANNOTATIONS\<close> intent whose \<open>messageId\<close>
  is the id of no message in \<open>chat.messages\<close> makes the reducer return the very state
  object it was given, not a new object with equal fields.
\<close>

theorem orphan_same_reference: 
  assumes "\<forall>msg \<in> set (messages (chat state)). item_id msg \<noteq> messageId"
  shows "appReducer_ref now state (CHAT_STREAM_CHUNK messageId c) = SameRef
       \<and> appReducer_ref now state (CHAT_STREAM_ANNOTATIONS messageId anns) = SameRef
       \<and> appReducer now state (CHAT_STREAM_CHUNK messageId c) = state
       \<and> appReducer now state (CHAT_STREAM_ANNOTATIONS messageId anns) = state"
proof -
  from assms have "findIndex (\<lambda>msg. item_id msg = messageId) (messages (chat state)) = None"
    by (simp add: findIndex_None_iff)
  then show ?thesis by (simp add: appReducer_def)
qed

theorem orphan_same_reference_witness:
  "''999'' \<notin> set (map item_id (messages (chat cancelledState)))
   \<and> appReducer_ref ''t'' cancelledState (CHAT_STREAM_CHUNK ''999'' ''lo'') = SameRef
   \<and> appReducer_ref ''t'' cancelledState (CHAT_STREAM_ANNOTATIONS ''999'' []) = SameRef"
  using orphan_same_reference [of cancelledState "''999''" "''t''" "''lo''" "[]"]
  by (simp add: cancelledState_def userItem_def placeholderItem_def)

subsection \<open>Errors\<close>

text \<open>
  Claim C5. \<open>CHAT_ERROR\<close> leaves \<open>chat.messages\<close> as it is, with all the content and
  annotations accumulated so far: a failure in the middle of a stream records the error
  and discards no partial answer.
\<close>

theorem chat_error_keeps_messages: "messages (chat (appReducer now state (CHAT_ERROR e))) = messages (chat state)"
  by (simp add: appReducer_def)

text \<open>
  Claim C8. After \<open>CHAT_ERROR\<close>, \<open>ui.chatInputEnabled\<close> is the \<open>recoverable\<close> flag of the
  error the intent carries.
\<close>

theorem chat_error_input_enabled: "chatInputEnabled (ui (appReducer now state (CHAT_ERROR e))) = recoverable e"
  by (simp add: appReducer_def)

subsection \<open>Reset\<close>

text \<open>
  Claim C9. \<open>CHAT_CLEAR\<close> is idempotent: applying it twice gives the same state (chat,
  ui and auth) as applying it once.
\<close>

theorem chat_clear_idempotent: "appReducer now' (appReducer now state CHAT_CLEAR) CHAT_CLEAR = appReducer now state CHAT_CLEAR"
  by (simp add: appReducer_def)

subsection \<open>The conversation id\<close>

lemma reducer_keeps_conv:
  "(\<forall>c m. action \<noteq> CHAT_START_STREAM c m) \<Longrightarrow> action \<noteq> CHAT_CLEAR \<Longrightarrow>
   currentConversationId (chat (appReducer now state action)) = currentConversationId (chat state)"
  by (cases action) (simp_all add: appReducer_def Let_def split: option.splits)

text \<open>
  Claim C7. From a state whose \<open>chat.currentConversationId\<close> is not null, every intent
  other than \<open>CHAT_CLEAR\<close> leads to a state whose \<open>chat.currentConversationId\<close> is not
  null; it is the same id, except that \<open>CHAT_START_STREAM\<close> with a conversation id
  stores that id.
\<close>

theorem conversation_id_kept:
  assumes "currentConversationId (chat state) \<noteq> None" and "action \<noteq> CHAT_CLEAR"
  shows "currentConversationId (chat (appReducer now state action)) \<noteq> None
       \<and> ((\<forall>c m. action \<noteq> CHAT_START_STREAM c m) \<longrightarrow>
            currentConversationId (chat (appReducer now state action)) = currentConversationId (chat state))
       \<and> (\<forall>c m. action = CHAT_START_STREAM c m \<longrightarrow>
            currentConversationId (chat (appReducer now state action)) =
              (if truthy c then c else currentConversationId (chat state)))"
proof (cases "\<exists>c m. action = CHAT_START_STREAM c m")
  case True
  then obtain c m where a: "action = CHAT_START_STREAM c m" by blast
  with assms show ?thesis
    by (auto simp: appReducer_def or_else_def truthy_def split: option.splits)
next
  case False
  with assms reducer_keeps_conv [of action now state] show ?thesis by auto
qed

theorem conversation_id_kept_witness:
  "currentConversationId (chat streamingState) \<noteq> None
   \<and> currentConversationId (chat (appReducer ''t'' streamingState (CHAT_ERROR authError))) =
       Some ''conv-1''
   \<and> currentConversationId (chat (appReducer ''t'' streamingState
        (CHAT_START_STREAM None ''1003''))) = Some ''conv-1''
   \<and> currentConversationId (chat (appReducer ''t'' streamingState
        (CHAT_START_STREAM (Some ''conv-2'') ''1003''))) = Some ''conv-2''"
  using conversation_id_kept [of streamingState "CHAT_ERROR authError" "''t''"]
        conversation_id_kept [of streamingState "CHAT_START_STREAM None ''1003''" "''t''"]
        conversation_id_kept [of streamingState "CHAT_START_STREAM (Some ''conv-2'') ''1003''" "''t''"]
  by (simp add: streamingState_def truthy_def)

subsection \<open>Stream intents when no message is marked as streaming\<close>

lemma annotations_step:
  assumes "findIndex (\<lambda>msg. item_id msg = mid) (messages (chat s)) = Some i"
  shows "messages (chat (appReducer now s (CHAT_STREAM_ANNOTATIONS mid anns))) =
           (messages (chat s))[i := (messages (chat s) ! i)
              \<lparr> annotations := Some ((case annotations (messages (chat s) ! i) of
                                        None \<Rightarrow> [] | Some as \<Rightarrow> as) @ anns) \<rparr>]"
  using assms by (simp add: appReducer_def Let_def)

lemma chunk_messages:
  assumes "findIndex (\<lambda>msg. item_id msg = mid) (messages (chat s)) = Some i"
  shows "messages (chat (appReducer now s (CHAT_STREAM_CHUNK mid c))) =
           (messages (chat s))[i := (messages (chat s) ! i)
              \<lparr> content := content (messages (chat s) ! i) @ c \<rparr>]"
  using assms by (simp add: appReducer_def Let_def)

lemma stream_intent_keeps_streaming_id:
  "action = CHAT_STREAM_CHUNK mid c \<or> action = CHAT_STREAM_ANNOTATIONS mid anns \<Longrightarrow>
   streamingMessageId (chat (appReducer now s action)) = streamingMessageId (chat s)"
  by (auto simp: appReducer_def Let_def split: option.splits)

lemma stream_intent_ignores_streaming_id:
  assumes "action = CHAT_STREAM_CHUNK mid c \<or> action = CHAT_STREAM_ANNOTATIONS mid anns"
  shows "appReducer now (withStreamingId sid s) action =
           withStreamingId sid (appReducer now s action)"
  using assms
  by (cases "findIndex (\<lambda>msg. item_id msg = mid) (messages (chat s))")
     (auto simp: appReducer_def withStreamingId_def Let_def)

text \<open>
  Claim C2, as amended. A \<open>CHAT_STREAM_CHUNK\<close> or \<open>CHAT_STREAM_ANNOTATIONS\<close> intent acts on
  the first message whose id is the intent's \<open>messageId\<close>, whether
  \<open>chat.streamingMessageId\<close> is absent or set: the reducer does not read that field (with
  any other value in it the result is the same but for the field) and does not change it.
  The target gets the chunk appended to its content, or the annotations appended to its
  annotations; the number of messages and every other message stay as they are; when no
  message has that id the state is returned unchanged.
\<close>

theorem stream_intent_target:
  assumes "action = CHAT_STREAM_CHUNK messageId c \<or> action = CHAT_STREAM_ANNOTATIONS messageId anns"
  shows "appReducer now (withStreamingId sid state) action =
           withStreamingId sid (appReducer now state action)
       \<and> streamingMessageId (chat (appReducer now state action)) = streamingMessageId (chat state)
       \<and> length (messages (chat (appReducer now state action))) = length (messages (chat state))
       \<and> (\<forall>j. findIndex (\<lambda>msg. item_id msg = messageId) (messages (chat state)) \<noteq> Some j \<longrightarrow>
              messages (chat (appReducer now state action)) ! j = messages (chat state) ! j)
       \<and> (\<forall>i. findIndex (\<lambda>msg. item_id msg = messageId) (messages (chat state)) = Some i \<longrightarrow>
              messages (chat (appReducer now state (CHAT_STREAM_CHUNK messageId c))) ! i =
                (messages (chat state) ! i)
                  \<lparr> content := content (messages (chat state) ! i) @ c \<rparr>
            \<and> messages (chat (appReducer now state (CHAT_STREAM_ANNOTATIONS messageId anns))) ! i =
                (messages (chat state) ! i)
                  \<lparr> annotations := Some ((case annotations (messages (chat state) ! i) of
                                            None \<Rightarrow> [] | Some as \<Rightarrow> as) @ anns) \<rparr>)
       \<and> (findIndex (\<lambda>msg. item_id msg = messageId) (messages (chat state)) = None \<longrightarrow>
              appReducer now state action = state)"
proof (cases "findIndex (\<lambda>msg. item_id msg = messageId) (messages (chat state))")
  case None
  then have "appReducer now state action = state"
    using assms by (auto simp: appReducer_def)
  with None stream_intent_ignores_streaming_id [OF assms, of now sid state] show ?thesis by simp
next
  case (Some i)
  from findIndex_Some [OF Some] have i: "i < length (messages (chat state))" by simp
  have "streamingMessageId (chat (appReducer now state action)) = streamingMessageId (chat state)"
    using stream_intent_keeps_streaming_id [OF assms] by simp
  moreover have "length (messages (chat (appReducer now state action))) = length (messages (chat state))
     \<and> (\<forall>j. j \<noteq> i \<longrightarrow> messages (chat (appReducer now state action)) ! j = messages (chat state) ! j)"
    using assms chunk_messages [OF Some] annotations_step [OF Some] by auto
  moreover have "messages (chat (appReducer now state (CHAT_STREAM_CHUNK messageId c))) ! i =
                (messages (chat state) ! i)
                  \<lparr> content := content (messages (chat state) ! i) @ c \<rparr>"
    using chunk_messages [OF Some, of now c] i by simp
  moreover have "messages (chat (appReducer now state (CHAT_STREAM_ANNOTATIONS messageId anns))) ! i =
                (messages (chat state) ! i)
                  \<lparr> annotations := Some ((case annotations (messages (chat state) ! i) of
                                            None \<Rightarrow> [] | Some as \<Rightarrow> as) @ anns) \<rparr>"
    using annotations_step [OF Some, of now anns] i by simp
  ultimately show ?thesis
    using Some stream_intent_ignores_streaming_id [OF assms, of now sid state] by auto
qed

theorem stream_intent_target_witness:
  "streamingMessageId (chat cancelledState) = None
   \<and> findIndex (\<lambda>msg. item_id msg = ''1001'') (messages (chat cancelledState)) = Some 1
   \<and> content (messages (chat (appReducer ''t'' cancelledState
                 (CHAT_STREAM_CHUNK ''1001'' ''lo''))) ! 1) = ''lo''
   \<and> streamingMessageId (chat (appReducer ''t'' cancelledState
                 (CHAT_STREAM_CHUNK ''1001'' ''lo''))) = None
   \<and> messages (chat (appReducer ''t'' cancelledState (CHAT_STREAM_CHUNK ''1001'' ''lo''))) ! 0
       = userItem
   \<and> appReducer ''t'' (withStreamingId (Some ''1001'') cancelledState)
         (CHAT_STREAM_CHUNK ''1001'' ''lo'') =
       withStreamingId (Some ''1001'')
         (appReducer ''t'' cancelledState (CHAT_STREAM_CHUNK ''1001'' ''lo''))
   \<and> appReducer ''t'' cancelledState (CHAT_STREAM_ANNOTATIONS ''999'' []) = cancelledState"
  using stream_intent_target [of "CHAT_STREAM_CHUNK ''1001'' ''lo''" "''1001''" "''lo''" "[]" "''t''"
               "Some ''1001''" cancelledState]
        stream_intent_target [of "CHAT_STREAM_ANNOTATIONS ''999'' []" "''999''" "[]" "[]" "''t''" None cancelledState]
  by (simp add: cancelledState_def userItem_def placeholderItem_def)

text \<open>The claim as first stated fails: after a cancel has cleared
  \<open>chat.streamingMessageId\<close>, a late chunk for the placeholder is still appended.\<close>

theorem late_chunk_counterexample:
  "streamingMessageId (chat cancelledState) = None
   \<and> content (messages (chat (appReducer ''t'' cancelledState
                 (CHAT_STREAM_CHUNK ''1001'' ''lo''))) ! 1)
       \<noteq> content (messages (chat cancelledState) ! 1)"
  by (simp add: cancelledState_def userItem_def placeholderItem_def appReducer_def)

section \<open>Properties of the stream loop\<close>

subsection \<open>Duplicate suppression\<close>

lemma accepted_Some: "accepted (Some c) cs = tl (remdups_adj (c # cs))"
  by (induction cs arbitrary: c) auto

lemma accepted_None: "accepted None cs = remdups_adj cs"
  by (cases cs) (simp_all add: accepted_Some)

lemma accepted_append:
  "accepted prev (cs @ ds) = accepted prev cs @ accepted (lastAfter prev cs) ds"
  by (induction cs arbitrary: prev) (auto simp: lastAfter_def)

lemma lastAfter_append: "lastAfter (lastAfter prev cs) ds = lastAfter prev (cs @ ds)"
  by (simp add: lastAfter_def)

lemma chunk_step:
  assumes "findIndex (\<lambda>msg. item_id msg = mid) (messages (chat s)) = Some i"
  shows "findIndex (\<lambda>msg. item_id msg = mid)
           (messages (chat (appReducer now s (CHAT_STREAM_CHUNK mid c)))) = Some i
       \<and> content (messages (chat (appReducer now s (CHAT_STREAM_CHUNK mid c))) ! i) =
           content (messages (chat s) ! i) @ c
       \<and> length (messages (chat (appReducer now s (CHAT_STREAM_CHUNK mid c)))) = length (messages (chat s))
       \<and> (\<forall>j. j \<noteq> i \<longrightarrow> messages (chat (appReducer now s (CHAT_STREAM_CHUNK mid c))) ! j = messages (chat s) ! j)"
proof -
  let ?ms = "messages (chat s)"
  let ?ms' = "?ms[i := (?ms ! i)\<lparr> content := content (?ms ! i) @ c \<rparr>]"
  from findIndex_Some [OF assms] have i: "i < length ?ms" by simp
  have ms': "messages (chat (appReducer now s (CHAT_STREAM_CHUNK mid c))) = ?ms'"
    using assms by (simp add: appReducer_def Let_def)
  have "map item_id ?ms' = map item_id ?ms"
    using i by (simp add: map_update list_update_same_conv)
  from findIndex_cong_ids [OF this] assms
  have "findIndex (\<lambda>msg. item_id msg = mid) ?ms' = Some i" by simp
  with i ms' show ?thesis by simp
qed

lemma chunkPayloads_append: "chunkPayloads (xs @ ys) = chunkPayloads xs @ chunkPayloads ys"
  by (induction xs rule: chunkPayloads.induct) auto

lemma chunkContents_append: "chunkContents (xs @ ys) = chunkContents xs @ chunkContents ys"
  by (induction xs rule: chunkContents.induct) auto

lemma chunkContents_filter:
  "list_all (streamIntent mid) tr \<Longrightarrow>
   filter (\<lambda>a. case a of CHAT_STREAM_CHUNK m c \<Rightarrow> True | _ \<Rightarrow> False) tr =
     map (CHAT_STREAM_CHUNK mid) (chunkContents tr)"
  by (induction tr rule: chunkContents.induct) auto

lemma stops_no_chunk: "stops ev \<Longrightarrow> chunkPayloads [ev] = []"
  by (cases ev) simp_all


lemma processEvent_chunks:
  assumes "processEvent env mid st ev = (tr, r)"
  shows "list_all (streamIntent mid) tr"
    and "chunkContents tr = accepted (lastChunkContent st) (chunkPayloads [ev])"
    and "stops ev \<longleftrightarrow> (\<forall>st'. r \<noteq> Next st')"
    and "\<forall>st'. r = Next st' \<longrightarrow>
           lastChunkContent st' = lastAfter (lastChunkContent st) (chunkPayloads [ev])"
  using assms
  by (cases ev; auto simp: Let_def lastAfter_def split: if_splits option.splits)+

lemma processLines_chunks_general:
  assumes "processLines env mid st ls = (tr, r)"
  shows "list_all (streamIntent mid) tr
       \<and> chunkContents tr =
           accepted (lastChunkContent st)
             (chunkPayloads (takeWhile (\<lambda>ev. \<not> stops ev) (parsedEvents ls)))
       \<and> (list_ex stops (parsedEvents ls) \<longleftrightarrow> (\<forall>st'. r \<noteq> Next st'))
       \<and> (\<forall>st'. r = Next st' \<longrightarrow>
             lastChunkContent st' =
               lastAfter (lastChunkContent st) (chunkPayloads (parsedEvents ls)))"
  using assms
proof (induction ls arbitrary: st tr r)
  case Nil
  then show ?case by (auto simp: lastAfter_def)
next
  case (Cons l ls)
  show ?case
  proof (cases l)
    case None
    with Cons show ?thesis by simp
  next
    case (Some ev)
    obtain tr1 r1 where ev: "processEvent env mid st ev = (tr1, r1)" by force
    note pe = processEvent_chunks [OF ev]
    show ?thesis
    proof (cases r1)
      case (Next st')
      obtain tr2 r2 where rest: "processLines env mid st' ls = (tr2, r2)" by force
      from Cons.prems Some ev Next rest have eq: "tr = tr1 @ tr2" "r = r2" by simp_all
      from pe(3) Next have ns: "\<not> stops ev" by simp
      from pe(4) Next have l': "lastChunkContent st' = lastAfter (lastChunkContent st) (chunkPayloads [ev])"
        by simp
      have app: "chunkPayloads (ev # zs) = chunkPayloads [ev] @ chunkPayloads zs" for zs
        by (cases ev) simp_all
      let ?L = "lastChunkContent st"
      let ?tw = "takeWhile (\<lambda>ev. \<not> stops ev) (parsedEvents ls)"
      note ih = Cons.IH [OF rest]
      have c1: "list_all (streamIntent mid) tr" using ih pe(1) eq by simp
      have "chunkContents tr =
              accepted ?L (chunkPayloads [ev]) @
              accepted (lastAfter ?L (chunkPayloads [ev])) (chunkPayloads ?tw)"
        using ih pe(2) eq l' by (simp add: chunkContents_append del: chunkPayloads.simps)
      also have "\<dots> = accepted ?L (chunkPayloads (ev # ?tw))"
        unfolding app [of ?tw] accepted_append ..
      finally have c2: "chunkContents tr =
          accepted ?L (chunkPayloads (takeWhile (\<lambda>ev. \<not> stops ev) (parsedEvents (l # ls))))"
        using Some ns by simp
      have c3: "list_ex stops (parsedEvents (l # ls)) \<longleftrightarrow> (\<forall>st'. r \<noteq> Next st')"
        using ih eq Some ns by simp
      have c4: "\<forall>st''. r = Next st'' \<longrightarrow>
             lastChunkContent st'' = lastAfter ?L (chunkPayloads (parsedEvents (l # ls)))"
      proof (intro allI impI)
        fix st'' assume "r = Next st''"
        with ih eq have "lastChunkContent st'' =
            lastAfter (lastAfter ?L (chunkPayloads [ev])) (chunkPayloads (parsedEvents ls))"
          using l' by simp
        also have "\<dots> = lastAfter ?L (chunkPayloads (ev # parsedEvents ls))"
          unfolding app [of "parsedEvents ls"] lastAfter_append ..
        finally show "lastChunkContent st'' = lastAfter ?L (chunkPayloads (parsedEvents (l # ls)))"
          using Some by simp
      qed
      from c1 c2 c3 c4 show ?thesis by blast
    next
      case ReturnDone
      with Cons.prems Some ev have "tr = tr1" "r = ReturnDone" by simp_all
      with pe ReturnDone Some stops_no_chunk [of ev] show ?thesis by auto
    next
      case (Throw e)
      with Cons.prems Some ev have "tr = tr1" "r = Throw e" by simp_all
      with pe Throw Some stops_no_chunk [of ev] show ?thesis by auto
    qed
  qed
qed

lemma reached_uninterrupted:
  "list_all (\<lambda>step. \<not> fst step \<and>
      (case snd step of Data ls \<Rightarrow> \<not> list_ex stops (parsedEvents ls) | ReadThrows e \<Rightarrow> False)) reads \<Longrightarrow>
   reached False reads =
     concat (map (\<lambda>step. case snd step of Data ls \<Rightarrow> parsedEvents ls | ReadThrows e \<Rightarrow> []) reads)"
  by (induction reads) (auto split: ReadResult.splits)

lemma readLoop_chunks_general:
  assumes "readLoop env mid st cancelled reads = (tr, out)"
  shows "list_all (streamIntent mid) tr
       \<and> chunkContents tr =
           accepted (lastChunkContent st) (chunkPayloads (reached cancelled reads))"
  using assms
proof (induction reads arbitrary: st cancelled tr out)
  case Nil
  then show ?case by simp
next
  case (Cons step reads)
  obtain c' r where step: "step = (c', r)" by (cases step)
  show ?case
  proof (cases cancelled)
    case True
    with Cons.prems step show ?thesis by simp
  next
    case False
    show ?thesis
    proof (cases r)
      case (ReadThrows e)
      with Cons.prems step False show ?thesis by simp
    next
      case (Data ls)
      obtain tr1 r1 where ls: "processLines env mid st ls = (tr1, r1)" by force
      note pl = processLines_chunks_general [OF ls]
      show ?thesis
      proof (cases r1)
        case (Next st')
        obtain tr2 out2 where rest: "readLoop env mid st' c' reads = (tr2, out2)" by force
        from Cons.prems step False Data ls Next rest have eq: "tr = tr1 @ tr2" by simp
        from pl Next have ns: "\<not> list_ex stops (parsedEvents ls)" by simp
        then have tw: "takeWhile (\<lambda>ev. \<not> stops ev) (parsedEvents ls) = parsedEvents ls"
          by (simp add: list_ex_iff)
        from pl Next have l': "lastChunkContent st' =
            lastAfter (lastChunkContent st) (chunkPayloads (parsedEvents ls))" by simp
        from Cons.IH [OF rest] pl eq ns tw l' step False Data show ?thesis
          by (simp add: chunkContents_append chunkPayloads_append accepted_append)
      next
        case ReturnDone
        with Cons.prems step False Data ls have eq: "tr = tr1" by simp
        from pl ReturnDone have "list_ex stops (parsedEvents ls)" by simp
        with pl eq step False Data show ?thesis by simp
      next
        case (Throw e)
        with Cons.prems step False Data ls have eq: "tr = tr1" by simp
        from pl Throw have "list_ex stops (parsedEvents ls)" by simp
        with pl eq step False Data show ?thesis by simp
      qed
    qed
  qed
qed

lemma processStream_chunks_general:
  assumes "processStream env cancelled (Some reads) mid conv = (tr, out)"
  shows "list_all (streamIntent mid) tr
       \<and> chunkContents tr = remdups_adj (chunkPayloads (reached cancelled reads))"
proof -
  obtain tr1 out1 where rl: "readLoop env mid
      \<lparr> newConversationId = conv, lastChunkContent = None \<rparr> cancelled reads = (tr1, out1)"
    by force
  from readLoop_chunks_general [OF rl]
  have a: "list_all (streamIntent mid) tr1"
    "chunkContents tr1 = remdups_adj (chunkPayloads (reached cancelled reads))"
    by (simp_all add: accepted_None)
  show ?thesis
  proof (cases out1)
    case Completed
    with assms rl have "tr = tr1" by (simp add: processStream_def)
    with a show ?thesis by simp
  next
    case (Raised e c)
    obtain tr2 out2 where sc: "streamCatch env mid conv e c = (tr2, out2)" by force
    then have "tr2 = [] \<or> (\<exists>a. tr2 = [CHAT_ERROR a])"
      by (auto simp: streamCatch_def Let_def split: if_splits)
    moreover from assms rl Raised sc have "tr = tr1 @ tr2" by (simp add: processStream_def)
    ultimately show ?thesis using a by (auto simp: chunkContents_append)
  qed
qed

lemma findIndex_append:
  "findIndex p xs = Some i \<Longrightarrow> findIndex p (xs @ ys) = Some i"
  by (induction xs arbitrary: i) (auto split: option.splits if_splits)

lemma content_completeMessage: "content (completeMessage sid u m) = content m"
  by (simp add: completeMessage_def)

lemma item_id_completeMessage: "item_id (completeMessage sid u m) = item_id m"
  by (simp add: completeMessage_def)

lemma stream_intent_step:
  assumes "findIndex (\<lambda>msg. item_id msg = mid) (messages (chat s)) = Some i"
    and "streamIntent mid a"
  shows "findIndex (\<lambda>msg. item_id msg = mid) (messages (chat (appReducer now s a))) = Some i
       \<and> content (messages (chat (appReducer now s a)) ! i) =
           content (messages (chat s) ! i) @ concat (chunkContents [a])"
proof -
  from findIndex_Some [OF assms(1)] have i: "i < length (messages (chat s))" by simp
  show ?thesis
  proof (cases a)
    case (CHAT_STREAM_CHUNK m c)
    with assms(2) have "m = mid" by simp
    with CHAT_STREAM_CHUNK chunk_step [OF assms(1), of now c] show ?thesis by simp
  next
    case (CHAT_STREAM_ANNOTATIONS m anns)
    with assms(2) have m: "m = mid" by simp
    let ?ms = "messages (chat s)"
    let ?ms' = "?ms[i := (?ms ! i)\<lparr> annotations :=
        Some ((case annotations (?ms ! i) of None \<Rightarrow> [] | Some as \<Rightarrow> as) @ anns) \<rparr>]"
    have ms': "messages (chat (appReducer now s a)) = ?ms'"
      using annotations_step [OF assms(1), of now anns] CHAT_STREAM_ANNOTATIONS m by simp
    have "map item_id ?ms' = map item_id ?ms"
      using i by (simp add: map_update list_update_same_conv)
    from findIndex_cong_ids [OF this] assms(1)
    have "findIndex (\<lambda>msg. item_id msg = mid) ?ms' = Some i" by simp
    with i ms' CHAT_STREAM_ANNOTATIONS show ?thesis by simp
  next
    case (CHAT_MCP_APPROVAL_REQUEST m r p)
    with assms(1) i show ?thesis
      by (simp add: appReducer_def findIndex_append nth_append)
  next
    case (CHAT_STREAM_COMPLETE u r)
    let ?ms = "messages (chat s)"
    let ?ms' = "map (completeMessage (streamingMessageId (chat s)) u) ?ms"
    have ms': "messages (chat (appReducer now s a)) = ?ms'"
      using CHAT_STREAM_COMPLETE by (simp add: appReducer_def Let_def)
    have "map item_id ?ms' = map item_id ?ms"
      by (simp add: item_id_completeMessage comp_def)
    from findIndex_cong_ids [OF this] assms(1)
    have "findIndex (\<lambda>msg. item_id msg = mid) ?ms' = Some i" by simp
    with i ms' CHAT_STREAM_COMPLETE show ?thesis by (simp add: content_completeMessage)
  qed (use assms in \<open>simp_all add: appReducer_def\<close>)
qed

lemma stream_intents_fold:
  assumes "findIndex (\<lambda>msg. item_id msg = mid) (messages (chat s)) = Some i"
    and "list_all (streamIntent mid) tr"
  shows "content (messages (chat (dispatchAll now s tr)) ! i) =
           content (messages (chat s) ! i) @ concat (chunkContents tr)"
  using assms
proof (induction tr arbitrary: s)
  case Nil
  show ?case by (simp add: dispatchAll_def)
next
  case (Cons a tr)
  from Cons.prems(2) have a: "streamIntent mid a" and tr: "list_all (streamIntent mid) tr"
    by simp_all
  note st = stream_intent_step [OF Cons.prems(1) a, of now]
  have app: "chunkContents (a # tr) = chunkContents [a] @ chunkContents tr"
    using chunkContents_append [of "[a]" tr] by simp
  from Cons.IH [OF conjunct1 [OF st] tr] st
  show ?case unfolding app by (simp add: dispatchAll_def)
qed

text \<open>
  Claim C1. For every stream (any reads, any events and unparsable lines between the
  chunks, any cancellation, error or \<open>done\<close>) and any message that is in the state: the
  chunk intents the run dispatches are those of its chunk payloads that differ from the
  chunk payload before them, in arrival order, and the content of the message ends as
  its content before followed by exactly those payloads. A payload equal to its
  immediate predecessor is dropped, also across reads and across events of other types;
  a repeat further apart is kept.
\<close>

theorem chunk_stream_content:
  assumes "findIndex (\<lambda>msg. item_id msg = messageId) (messages (chat state)) = Some i"
  shows "filter (\<lambda>a. case a of CHAT_STREAM_CHUNK m c \<Rightarrow> True | _ \<Rightarrow> False)
           (fst (processStream env cancelled (Some reads) messageId conv)) =
         map (CHAT_STREAM_CHUNK messageId)
           (remdups_adj (chunkPayloads (reached cancelled reads)))
       \<and> content (messages (chat (dispatchAll now state
             (fst (processStream env cancelled (Some reads) messageId conv)))) ! i) =
         content (messages (chat state) ! i) @
           concat (remdups_adj (chunkPayloads (reached cancelled reads)))"
proof -
  obtain tr out where p: "processStream env cancelled (Some reads) messageId conv = (tr, out)"
    by force
  note g = processStream_chunks_general [OF p]
  from chunkContents_filter [OF conjunct1 [OF g]] g stream_intents_fold [OF assms conjunct1 [OF g], of now]
  show ?thesis by (simp add: p)
qed

theorem chunk_stream_content_witness:
  "findIndex (\<lambda>msg. item_id msg = ''1001'') (messages (chat streamingState)) = Some 1
   \<and> chunkPayloads (reached False mixedStream) = [''Hel'', ''Hel'', ''lo'']
   \<and> content (messages (chat (dispatchAll ''t'' streamingState
        (fst (processStream exampleEnv False (Some mixedStream) ''1001'' None)))) ! 1) = ''Hello''"
proof -
  have h: "findIndex (\<lambda>msg. item_id msg = ''1001'') (messages (chat streamingState)) = Some 1"
    by (simp add: streamingState_def userItem_def placeholderItem_def)
  have r: "chunkPayloads (reached False mixedStream) = [''Hel'', ''Hel'', ''lo'']"
    by (simp add: mixedStream_def)
  from chunk_stream_content [OF h, of exampleEnv False mixedStream None "''t''"]
  have "content (messages (chat (dispatchAll ''t'' streamingState
          (fst (processStream exampleEnv False (Some mixedStream) ''1001'' None)))) ! 1) =
        content (messages (chat streamingState) ! 1) @
          concat (remdups_adj (chunkPayloads (reached False mixedStream)))"
    by (rule conjunct2)
  then show ?thesis using h r
    by (simp add: streamingState_def userItem_def placeholderItem_def)
qed

subsection \<open>Cancellation\<close>

lemma processEvent_error_only_with_throw:
  assumes "processEvent env mid st ev = (tr, r)"
  shows "(\<forall>e. r \<noteq> Throw e) \<longrightarrow> (\<forall>a. CHAT_ERROR a \<notin> set tr)"
    and "\<forall>e. r = Throw e \<longrightarrow> (\<exists>a. e = AppErrorExn a)"
  using assms by (cases ev; auto simp: Let_def split: if_splits option.splits)+

lemma processLines_error_only_with_throw:
  assumes "processLines env mid st ls = (tr, r)"
  shows "((\<forall>e. r \<noteq> Throw e) \<longrightarrow> (\<forall>a. CHAT_ERROR a \<notin> set tr))
       \<and> (\<forall>e. r = Throw e \<longrightarrow> (\<exists>a. e = AppErrorExn a))"
  using assms
proof (induction ls arbitrary: st tr r)
  case Nil
  then show ?case by auto
next
  case (Cons l ls)
  show ?case
  proof (cases l)
    case None
    with Cons show ?thesis by simp
  next
    case (Some ev)
    obtain tr1 r1 where ev: "processEvent env mid st ev = (tr1, r1)" by force
    note pe = processEvent_error_only_with_throw [OF ev]
    show ?thesis
    proof (cases r1)
      case (Next st')
      obtain tr2 r2 where rest: "processLines env mid st' ls = (tr2, r2)" by force
      from Cons.prems Some ev Next rest have eq: "tr = tr1 @ tr2" "r = r2" by simp_all
      from Cons.IH [OF rest] pe Next eq show ?thesis by auto
    next
      case ReturnDone
      with Cons.prems Some ev have "tr = tr1" "r = ReturnDone" by simp_all
      with pe ReturnDone show ?thesis by auto
    next
      case (Throw e)
      with Cons.prems Some ev have "tr = tr1" "r = Throw e" by simp_all
      with pe Throw show ?thesis by auto
    qed
  qed
qed

lemma readLoop_error_only_with_app_error:
  assumes "readLoop env mid st c reads = (tr, out)"
    and "\<forall>a f. out \<noteq> Raised (AppErrorExn a) f"
  shows "\<forall>a. CHAT_ERROR a \<notin> set tr"
  using assms
proof (induction reads arbitrary: st c tr out)
  case Nil
  then show ?case by simp
next
  case (Cons step reads)
  obtain c' r where step: "step = (c', r)" by (cases step)
  show ?case
  proof (cases c)
    case True
    with Cons.prems step show ?thesis by simp
  next
    case False
    show ?thesis
    proof (cases r)
      case (ReadThrows e)
      with Cons.prems step False show ?thesis by simp
    next
      case (Data ls)
      obtain tr1 r1 where ls: "processLines env mid st ls = (tr1, r1)" by force
      note pl = processLines_error_only_with_throw [OF ls]
      show ?thesis
      proof (cases r1)
        case (Next st')
        obtain tr2 out2 where rest: "readLoop env mid st' c' reads = (tr2, out2)" by force
        from Cons.prems(1) step False Data ls Next rest
        have eq: "tr = tr1 @ tr2" "out = out2" by simp_all
        from Cons.prems(2) eq have "\<forall>a f. out2 \<noteq> Raised (AppErrorExn a) f" by simp
        from Cons.IH [OF rest this] eq pl Next show ?thesis by auto
      next
        case ReturnDone
        with Cons.prems(1) step False Data ls have "tr = tr1" by simp
        with pl ReturnDone show ?thesis by auto
      next
        case (Throw e)
        with Cons.prems(1) step False Data ls have "tr = tr1" "out = Raised e c'" by simp_all
        with pl Throw Cons.prems(2) show ?thesis by auto
      qed
    qed
  qed
qed

text \<open>
  Claim C3. When the \<open>try\<close> block of the stream loop ends with an abort error: if the
  cancellation flag is set, \<open>processStream\<close> returns normally and the run has dispatched
  no \<open>CHAT_ERROR\<close>; if the flag is not set, \<open>processStream\<close> dispatches a \<open>CHAT_ERROR\<close>
  as its last intent and rethrows the abort error. The \<open>catch\<close> block of \<open>sendMessage\<close>
  adds no intent for an abort error.
\<close>

theorem abort_by_flag:
  assumes "readLoop env messageId \<lparr> newConversationId = conv, lastChunkContent = None \<rparr>
             cancelled reads = (tr, Raised (DOMException ''AbortError'' m) flag)"
  shows "(flag \<longrightarrow>
            processStream env cancelled (Some reads) messageId conv = (tr, Returned)
          \<and> (\<forall>a. CHAT_ERROR a \<notin> set tr))
       \<and> (\<not> flag \<longrightarrow>
            processStream env cancelled (Some reads) messageId conv =
              (tr @ [CHAT_ERROR (castAppError env (DOMException ''AbortError'' m))],
               Threw (DOMException ''AbortError'' m)))
       \<and> sendCatch env args (DOMException ''AbortError'' m) = ([], Returned)"
proof -
  from readLoop_error_only_with_app_error [OF assms]
  have "\<forall>a. CHAT_ERROR a \<notin> set tr" by simp
  with assms show ?thesis
    by (simp add: processStream_def streamCatch_def sendCatch_def)
qed

theorem abort_by_flag_witness:
  "readLoop exampleEnv ''1001'' \<lparr> newConversationId = None, lastChunkContent = None \<rparr> False
     [(False, Data [Some (EvChunk ''Hel'')]),
      (True, ReadThrows (DOMException ''AbortError'' ''aborted''))] =
     ([CHAT_STREAM_CHUNK ''1001'' ''Hel''], Raised (DOMException ''AbortError'' ''aborted'') True)
   \<and> processStream exampleEnv False
       (Some [(False, Data [Some (EvChunk ''Hel'')]),
              (True, ReadThrows (DOMException ''AbortError'' ''aborted''))]) ''1001'' None =
       ([CHAT_STREAM_CHUNK ''1001'' ''Hel''], Returned)
   \<and> readLoop exampleEnv ''1001'' \<lparr> newConversationId = None, lastChunkContent = None \<rparr> False
     [(False, Data [Some (EvChunk ''Hel'')]),
      (False, ReadThrows (DOMException ''AbortError'' ''aborted''))] =
     ([CHAT_STREAM_CHUNK ''1001'' ''Hel''], Raised (DOMException ''AbortError'' ''aborted'') False)
   \<and> processStream exampleEnv False
       (Some [(False, Data [Some (EvChunk ''Hel'')]),
              (False, ReadThrows (DOMException ''AbortError'' ''aborted''))]) ''1001'' None =
       ([CHAT_STREAM_CHUNK ''1001'' ''Hel'',
         CHAT_ERROR \<lparr> code = ''20'', message = ''aborted'', recoverable = False,
                      retry = None \<rparr>],
        Threw (DOMException ''AbortError'' ''aborted''))"
  using abort_by_flag [of exampleEnv "''1001''" None False
              "[(False, Data [Some (EvChunk ''Hel'')]),
                (True, ReadThrows (DOMException ''AbortError'' ''aborted''))]"
              "[CHAT_STREAM_CHUNK ''1001'' ''Hel'']" "''aborted''" True]
        abort_by_flag [of exampleEnv "''1001''" None False
              "[(False, Data [Some (EvChunk ''Hel'')]),
                (False, ReadThrows (DOMException ''AbortError'' ''aborted''))]"
              "[CHAT_STREAM_CHUNK ''1001'' ''Hel'']" "''aborted''" False]
  by (simp add: exampleEnv_def)

subsection \<open>Approval requests\<close>

text \<open>
  Claim C10. For an \<open>mcpApprovalRequest\<close> event that carries a request, the loop
  dispatches \<open>CHAT_MCP_APPROVAL_REQUEST\<close> whose \<open>previousResponseId\<close> is the loop's
  conversation id (the one the caller passed, when the stream has not announced one);
  the reducer appends a message with id \<open>approval-\<close> followed by the streaming message
  id, whose \<open>mcpApproval.previousResponseId\<close> is that value, or the empty string when
  it is null.
\<close>

theorem approval_request_intent:
  "processEvent env messageId st (EvMcpApprovalRequest (Some req)) =
     ([CHAT_MCP_APPROVAL_REQUEST messageId req (newConversationId st)], Next st)
   \<and> fst (processStream env False
            (Some [(False, Data [Some (EvMcpApprovalRequest (Some req))])]) messageId conv) =
       [CHAT_MCP_APPROVAL_REQUEST messageId req conv]
   \<and> fst (processStream env False
            (Some [(False, Data [Some (EvConversationId c),
                                 Some (EvMcpApprovalRequest (Some req))])]) messageId None) =
       [CHAT_START_STREAM c messageId, CHAT_MCP_APPROVAL_REQUEST messageId req c]
   \<and> messages (chat (appReducer now state (CHAT_MCP_APPROVAL_REQUEST messageId req prevId))) =
       messages (chat state) @ [approvalMessage messageId req prevId]
   \<and> item_id (approvalMessage messageId req prevId) = ''approval-'' @ messageId
   \<and> map_option previousResponseId (mcpApproval (approvalMessage messageId req prevId)) =
       Some (case prevId of None \<Rightarrow> [] | Some v \<Rightarrow> v)"
  by (simp add: processStream_def appReducer_def approvalMessage_def or_empty_def truthy_def
           split: option.splits)

section \<open>Properties of sendMessage\<close>

lemma sendTry_early_failure_error:
  assumes "(\<exists>e. tokenResult w = Inl e) \<or> (\<exists>t. tokenResult w = Inr t \<and> \<not> truthy t)
         \<or> ((case files args of None \<Rightarrow> False | Some l \<Rightarrow> l \<noteq> []) \<and> (\<exists>e. convertResult w = Inl e))"
  shows "\<exists>tr err. sendTry env svc args w = (svc, tr, Threw err)
           \<and> list_all isChatError tr
           \<and> (tokenResult w = Inl err \<and> tr = []
              \<or> (\<exists>t. tokenResult w = Inr t \<and> \<not> truthy t) \<and> tr = []
                  \<and> err = AppErrorExn (createAppError env
                             (ErrorExn ''Failed to acquire access token'') (Some ''AUTH'') None)
              \<or> (\<exists>t. tokenResult w = Inr t \<and> truthy t)
                  \<and> (\<exists>e. convertResult w = Inl e
                         \<and> err = AppErrorExn (createAppError env e None None)))"
proof (cases "ensureAuthToken env (tokenResult w)")
  case (Inl e)
  then have "tokenResult w = Inl e
     \<or> (\<exists>t. tokenResult w = Inr t \<and> \<not> truthy t) \<and>
        e = AppErrorExn (createAppError env
              (ErrorExn ''Failed to acquire access token'') (Some ''AUTH'') None)"
    by (auto simp: ensureAuthToken_def split: sum.splits if_splits)
  with Inl show ?thesis by (auto simp: sendTry_def)
next
  case (Inr token)
  then have tok: "\<exists>t. tokenResult w = Inr t \<and> truthy t"
    by (auto simp: ensureAuthToken_def split: sum.splits if_splits)
  with assms have f: "(case files args of None \<Rightarrow> False | Some l \<Rightarrow> l \<noteq> [])"
    and "\<exists>e. convertResult w = Inl e"
    by auto
  then obtain e where e: "convertResult w = Inl e" by blast
  from f e have "prepareMessagePayload env (messageText args) (files args) (convertResult w) =
      ([CHAT_ERROR (createAppError env e None None)],
       Inl (AppErrorExn (createAppError env e None None)))"
    by (auto simp: prepareMessagePayload_def Let_def split: option.splits)
  with Inr tok e show ?thesis by (auto simp: sendTry_def isChatError_def)
qed

text \<open>
  Claim C6, as amended. When token acquisition fails (a rejection, or no token) or the
  conversion of the attachments fails, \<open>sendMessage\<close> dispatches no
  \<open>CHAT_SEND_MESSAGE\<close>, \<open>CHAT_ADD_ASSISTANT_MESSAGE\<close> or \<open>CHAT_START_STREAM\<close>. Its intents
  other than \<open>CHAT_ERROR\<close> are, in this order, \<open>CHAT_CANCEL_STREAM\<close> exactly when the
  service still holds an abort controller (\<open>currentStreamAbort\<close> is set: a stream is
  running, or an earlier call was cancelled or failed and left it), and
  \<open>AUTH_TOKEN_EXPIRED\<close> exactly when the failure is not an abort error and
  \<open>isTokenExpiredError\<close> holds of it. Unless the failure is an abort error, the last
  intent is the \<open>CHAT_ERROR\<close> for it and the call throws it; an abort error ends the call
  with no \<open>CHAT_ERROR\<close>. A failure of token acquisition dispatches exactly one
  \<open>CHAT_ERROR\<close>.
\<close>

theorem failed_send_intents:
  assumes "(\<exists>e. tokenResult w = Inl e) \<or> (\<exists>t. tokenResult w = Inr t \<and> \<not> truthy t)
         \<or> ((case files args of None \<Rightarrow> False | Some l \<Rightarrow> l \<noteq> []) \<and> (\<exists>e. convertResult w = Inl e))"
    and "sendMessage env svc args w = (svc', tr, out)"
  shows "\<exists>err.
         (tokenResult w = Inl err
          \<or> (\<exists>t. tokenResult w = Inr t \<and> \<not> truthy t)
              \<and> err = AppErrorExn (createAppError env
                         (ErrorExn ''Failed to acquire access token'') (Some ''AUTH'') None)
          \<or> (\<exists>t. tokenResult w = Inr t \<and> truthy t)
              \<and> (\<exists>e. convertResult w = Inl e
                     \<and> err = AppErrorExn (createAppError env e None None)))
       \<and> filter (\<lambda>a. \<not> isChatError a) tr =
           (if currentStreamAbort svc \<noteq> None then [CHAT_CANCEL_STREAM] else []) @
           (if \<not> isAbortError err \<and> isTokenExpiredError env err then [AUTH_TOKEN_EXPIRED] else [])
       \<and> (isAbortError err \<longrightarrow> out = Returned \<and> list_all (\<lambda>a. \<not> isChatError a) tr)
       \<and> (\<not> isAbortError err \<longrightarrow>
             out = Threw err \<and> tr \<noteq> [] \<and>
             last tr = CHAT_ERROR (if isAppError env err then asAppError env err
                                   else createAppError env err (getErrorCodeFromMessage env err)
                                          (Some args)))
       \<and> ((\<exists>t. tokenResult w = Inr t \<and> truthy t) \<or>
             length (filter isChatError tr) = (if isAbortError err then 0 else 1))
       \<and> (\<forall>m. CHAT_SEND_MESSAGE m \<notin> set tr)
       \<and> (\<forall>i. CHAT_ADD_ASSISTANT_MESSAGE i \<notin> set tr)
       \<and> (\<forall>c i. CHAT_START_STREAM c i \<notin> set tr)"
proof -
  define svc0 where "svc0 = (case currentStreamAbort svc of
       Some aborted \<Rightarrow> svc\<lparr> streamCancelled := True, currentStreamAbort := Some True \<rparr>
     | None \<Rightarrow> svc)"
  define tr0 where "tr0 = (if currentStreamAbort svc \<noteq> None then [CHAT_CANCEL_STREAM] else [])"
  define tr2 where "tr2 err =
     (if isAbortError err then []
      else (if isTokenExpiredError env err then [AUTH_TOKEN_EXPIRED] else []) @
           [CHAT_ERROR (if isAppError env err then asAppError env err
                        else createAppError env err (getErrorCodeFromMessage env err)
                               (Some args))])" for err
  from sendTry_early_failure_error [OF assms(1), of env svc0]
  obtain tr1 err where t: "sendTry env svc0 args w = (svc0, tr1, Threw err)"
    and tr1: "list_all isChatError tr1"
    and cases3: "tokenResult w = Inl err \<and> tr1 = []
              \<or> (\<exists>t. tokenResult w = Inr t \<and> \<not> truthy t) \<and> tr1 = []
                  \<and> err = AppErrorExn (createAppError env
                             (ErrorExn ''Failed to acquire access token'') (Some ''AUTH'') None)
              \<or> (\<exists>t. tokenResult w = Inr t \<and> truthy t)
                  \<and> (\<exists>e. convertResult w = Inl e
                         \<and> err = AppErrorExn (createAppError env e None None))"
    by blast
  have c: "sendCatch env args err = (tr2 err, if isAbortError err then Returned else Threw err)"
    by (simp add: sendCatch_def tr2_def Let_def)
  from assms(2) t c have tr: "tr = tr0 @ tr1 @ tr2 err"
    and out: "out = (if isAbortError err then Returned else Threw err)"
    by (auto simp: sendMessage_def svc0_def tr0_def split: option.splits)
  have f1: "filter (\<lambda>a. \<not> isChatError a) tr1 = []"
    using tr1 by (induction tr1) auto
  have ab: "isAbortError err \<Longrightarrow> tr1 = []"
    using cases3 by auto
  have nonabort_or: "(\<exists>t. tokenResult w = Inr t \<and> truthy t) \<or> tr1 = []"
    using cases3 by auto
  have f0: "filter (\<lambda>a. \<not> isChatError a) tr0 = tr0" "filter isChatError tr0 = []"
    by (simp_all add: tr0_def isChatError_def)
  have f2: "filter (\<lambda>a. \<not> isChatError a) (tr2 err) =
      (if \<not> isAbortError err \<and> isTokenExpiredError env err then [AUTH_TOKEN_EXPIRED] else [])"
    "length (filter isChatError (tr2 err)) = (if isAbortError err then 0 else 1)"
    by (simp_all add: tr2_def isChatError_def)
  have p1: "filter (\<lambda>a. \<not> isChatError a) tr = tr0 @
           (if \<not> isAbortError err \<and> isTokenExpiredError env err then [AUTH_TOKEN_EXPIRED] else [])"
    unfolding tr by (simp only: filter_append f0 f1 f2 append_Nil)
  have p2: "isAbortError err \<longrightarrow> out = Returned \<and> list_all (\<lambda>a. \<not> isChatError a) tr"
  proof
    assume a: "isAbortError err"
    with ab have "tr = tr0" unfolding tr by (simp add: tr2_def)
    moreover have "list_all (\<lambda>a. \<not> isChatError a) tr0"
      by (simp add: tr0_def isChatError_def)
    ultimately show "out = Returned \<and> list_all (\<lambda>a. \<not> isChatError a) tr"
      using out a by simp
  qed
  have p3: "\<not> isAbortError err \<longrightarrow>
             out = Threw err \<and> tr \<noteq> [] \<and>
             last tr = CHAT_ERROR (if isAppError env err then asAppError env err
                                   else createAppError env err (getErrorCodeFromMessage env err)
                                          (Some args))"
    unfolding tr using out by (simp add: tr2_def)
  have p4: "(\<exists>t. tokenResult w = Inr t \<and> truthy t) \<or>
             length (filter isChatError tr) = (if isAbortError err then 0 else 1)"
  proof (cases "tr1 = []")
    case True
    then have "length (filter isChatError tr) = (if isAbortError err then 0 else 1)"
      unfolding tr by (simp only: filter_append f0 f2 filter.simps append_Nil)
    then show ?thesis ..
  next
    case False
    with nonabort_or show ?thesis by simp
  qed
  have p5: "(\<forall>m. CHAT_SEND_MESSAGE m \<notin> set tr) \<and> (\<forall>i. CHAT_ADD_ASSISTANT_MESSAGE i \<notin> set tr)
       \<and> (\<forall>c i. CHAT_START_STREAM c i \<notin> set tr)"
    unfolding tr using tr1
    by (auto simp: tr0_def tr2_def list_all_iff isChatError_def split: if_splits)
  from cases3 have p0: "tokenResult w = Inl err
          \<or> (\<exists>t. tokenResult w = Inr t \<and> \<not> truthy t)
              \<and> err = AppErrorExn (createAppError env
                         (ErrorExn ''Failed to acquire access token'') (Some ''AUTH'') None)
          \<or> (\<exists>t. tokenResult w = Inr t \<and> truthy t)
              \<and> (\<exists>e. convertResult w = Inl e
                     \<and> err = AppErrorExn (createAppError env e None None))"
    by blast
  from p0 p1 p2 p3 p4 p5 show ?thesis unfolding tr0_def by blast
qed

theorem failed_send_intents_witness:
  "tokenResult nullTokenWorld = Inr None \<and> \<not> truthy None
   \<and> sendMessage exampleEnv \<lparr> currentStreamAbort = None, streamCancelled = False \<rparr>
        exampleArgs nullTokenWorld =
       (\<lparr> currentStreamAbort = None, streamCancelled = False \<rparr>, [CHAT_ERROR authError],
        Threw (AppErrorExn authError))
   \<and> sendMessage expiringEnv \<lparr> currentStreamAbort = Some False, streamCancelled = False \<rparr>
        exampleArgs nullTokenWorld =
       (\<lparr> currentStreamAbort = Some True, streamCancelled = True \<rparr>,
        [CHAT_CANCEL_STREAM, AUTH_TOKEN_EXPIRED, CHAT_ERROR authError],
        Threw (AppErrorExn authError))"
  using failed_send_intents [of nullTokenWorld exampleArgs exampleEnv
              "\<lparr> currentStreamAbort = None, streamCancelled = False \<rparr>"
              "\<lparr> currentStreamAbort = None, streamCancelled = False \<rparr>"
              "[CHAT_ERROR authError]" "Threw (AppErrorExn authError)"]
        failed_send_intents [of nullTokenWorld exampleArgs expiringEnv
              "\<lparr> currentStreamAbort = Some False, streamCancelled = False \<rparr>"
              "\<lparr> currentStreamAbort = Some True, streamCancelled = True \<rparr>"
              "[CHAT_CANCEL_STREAM, AUTH_TOKEN_EXPIRED, CHAT_ERROR authError]"
              "Threw (AppErrorExn authError)"]
  by (simp add: sendMessage_def sendTry_def sendCatch_def ensureAuthToken_def truthy_def
        nullTokenWorld_def exampleEnv_def expiringEnv_def exampleArgs_def authError_def)

text \<open>The claim as first stated fails: with a stream active at the call, the failure of
  token acquisition is preceded by \<open>CHAT_CANCEL_STREAM\<close>.\<close>

theorem failed_send_cancel_counterexample:
  "tokenResult nullTokenWorld = Inr None
   \<and> fst (snd (sendMessage exampleEnv \<lparr> currentStreamAbort = Some False, streamCancelled = False \<rparr>
                  exampleArgs nullTokenWorld)) =
       [CHAT_CANCEL_STREAM, CHAT_ERROR authError]"
  by (simp add: sendMessage_def sendTry_def sendCatch_def ensureAuthToken_def truthy_def
        nullTokenWorld_def exampleEnv_def exampleArgs_def authError_def)

end
